theory Spec2Isabelle
  imports Complex_Main "HOL-Library.Sublist"
begin

section \<open>The adaptive inventory agent (core_modules/inventory_agent.py)\<close>

text \<open>
  A shallow embedding of the class \<open>IntelligentInventoryAgent\<close>. Python numbers are
  modelled as exact reals (\<open>float\<close> rounding is not modelled), counters and unit counts
  produced by \<open>int(...)\<close> as integers. The object's attributes form the record
  \<open>agent\<close>; every method takes the agent and returns the updated agent next to its
  result. Dictionaries with a fixed set of keys are records, the per-scenario dictionary
  is a map from labels to entries, and the two logs are lists in append order.
\<close>

subsection \<open>Python primitives\<close>

text \<open>\<open>sub in s\<close> on strings: \<open>sub\<close> occurs in \<open>s\<close> as a contiguous substring.\<close>

fun contains :: "string \<Rightarrow> string \<Rightarrow> bool" where
  "contains sub [] = (sub = [])"
| "contains sub (c # cs) = (prefix sub (c # cs) \<or> contains sub cs)"

text \<open>\<open>int(x)\<close> on a float truncates towards zero.\<close>

definition py_int :: "real \<Rightarrow> int" where
  "py_int x = (if 0 \<le> x then \<lfloor>x\<rfloor> else \<lceil>x\<rceil>)"

text \<open>\<open>np.mean\<close> of a list of numbers.\<close>

definition mean :: "real list \<Rightarrow> real" where
  "mean xs = sum_list xs / real (length xs)"

subsection \<open>Data model\<close>

type_synonym date = nat

datatype action = no_action | intelligent_reorder | stockout

text \<open>
  The \<open>reason\<close> text of a decision: the empty string, the formatted stockout message
  (kept as the unfulfilled amount it prints) or \<open>"Smart reorder: "\<close> followed by the
  strategy notes.
\<close>

datatype reason = NoReason | StockoutReason real | SmartReorder string

record adaptation =
  reorder_point :: real
  reorder_quantity :: real
  urgency_level :: string
  strategy_notes :: string

record decision =
  date :: date
  scenario :: string
  predicted_demand :: real
  current_stock_before :: real
  d_urgency_level :: string
  d_strategy_notes :: string
  adaptive_reorder_point :: real
  adaptive_reorder_quantity :: real
  action :: action
  order_quantity :: int
  reason :: reason
  current_stock_after :: real
  actual_demand :: real
  demand_fulfilled :: real

record order =
  o_date :: date
  quantity :: int
  o_scenario :: string
  urgency :: string
  cost :: int
  lead_time_expected :: nat

record memory =
  encounters :: nat
  avg_demand :: real
  max_demand :: real
  successful_strategies :: "string list"

record agent =
  current_stock :: real
  base_reorder_point :: real
  base_reorder_quantity :: real
  orders_placed :: "order list"
  stockouts :: nat
  decisions_log :: "decision list"
  scenario_memory :: "string \<rightharpoonup> memory"
  total_revenue :: real
  total_costs :: int
  customer_satisfaction_score :: int
  safety_stock_multiplier :: real
  max_order_size :: real
  lead_time_days :: nat

subsection \<open>Construction and reset\<close>

text \<open>\<open>__init__(initial_stock, base_reorder_point, base_reorder_quantity)\<close>.\<close>

definition agent_init :: "real \<Rightarrow> real \<Rightarrow> real \<Rightarrow> agent" where
  "agent_init initial_stock brp brq =
     \<lparr>current_stock = initial_stock,
      base_reorder_point = brp,
      base_reorder_quantity = brq,
      orders_placed = [],
      stockouts = 0,
      decisions_log = [],
      scenario_memory = Map.empty,
      total_revenue = 0,
      total_costs = 0,
      customer_satisfaction_score = 100,
      safety_stock_multiplier = 12 / 10,
      max_order_size = 5000,
      lead_time_days = 3\<rparr>"

text \<open>The defaults of \<open>__init__\<close>: \<open>IntelligentInventoryAgent()\<close>.\<close>

definition agent_default :: agent where
  "agent_default = agent_init 2000 300 800"

text \<open>
  \<open>reset_simulation(initial_stock=None)\<close>. The argument is tested for truthiness:
  \<open>None\<close> and \<open>0\<close> both take the \<open>else\<close> branch. The method assigns the seven
  attributes listed and no others (the message it prints is not modelled).
\<close>

definition reset_simulation :: "agent \<Rightarrow> real option \<Rightarrow> agent" where
  "reset_simulation s initial_stock =
     s\<lparr>current_stock :=
         (case initial_stock of
            None \<Rightarrow> 2000
          | Some v \<Rightarrow> if v \<noteq> 0 then v else 2000),
       orders_placed := [],
       stockouts := 0,
       decisions_log := [],
       total_revenue := 0,
       total_costs := 0,
       customer_satisfaction_score := 100\<rparr>"

subsection \<open>Scenario memory\<close>

text \<open>\<open>_update_scenario_memory(scenario_name, demand, urgency_level)\<close>.\<close>

definition update_scenario_memory :: "agent \<Rightarrow> string \<Rightarrow> real \<Rightarrow> string \<Rightarrow> agent" where
  "update_scenario_memory s scenario_name demand urg =
     (let m0 = (case scenario_memory s scenario_name of
                  None \<Rightarrow> \<lparr>encounters = 0, avg_demand = 0, max_demand = 0,
                           successful_strategies = []\<rparr>
                | Some m \<Rightarrow> m);
          n = encounters m0 + 1;
          m1 = \<lparr>encounters = n,
                avg_demand = (avg_demand m0 * real (n - 1) + demand) / real n,
                max_demand = max (max_demand m0) demand,
                successful_strategies = successful_strategies m0 @ [urg]\<rparr>
      in s\<lparr>scenario_memory := (scenario_memory s)(scenario_name \<mapsto> m1)\<rparr>)"

subsection \<open>Scenario adaptation\<close>

text \<open>
  The \<open>if\<close>/\<open>elif\<close> cascade of \<open>analyze_scenario_and_adapt\<close>, in the source's order;
  the first matching branch wins.
\<close>

definition adapt_parameters :: "agent \<Rightarrow> string \<Rightarrow> adaptation" where
  "adapt_parameters s scenario_name =
     (if contains ''Viral'' scenario_name \<or> contains ''Celebrity'' scenario_name then
        \<lparr>reorder_point = base_reorder_point s * (25 / 10),
         reorder_quantity = min (base_reorder_quantity s * 3) (max_order_size s),
         urgency_level = ''Critical - Viral Event'',
         strategy_notes = ''Preparing for viral demand spike - maximizing availability''\<rparr>
      else if contains ''Black_Friday'' scenario_name then
        \<lparr>reorder_point = base_reorder_point s * 3,
         reorder_quantity = min (base_reorder_quantity s * 4) (max_order_size s),
         urgency_level = ''Critical - Black Friday'',
         strategy_notes = ''Black Friday preparation - ensuring maximum stock availability''\<rparr>
      else if contains ''Supply_Chain_Disruption'' scenario_name then
        \<lparr>reorder_point = base_reorder_point s * (18 / 10),
         reorder_quantity = base_reorder_quantity s * (7 / 10),
         urgency_level = ''Caution - Supply Issues'',
         strategy_notes = ''Supply chain disruption - smaller orders to reduce risk''\<rparr>
      else if contains ''Economic_Downturn'' scenario_name then
        \<lparr>reorder_point = base_reorder_point s * (7 / 10),
         reorder_quantity = base_reorder_quantity s * (6 / 10),
         urgency_level = ''Conservative - Economic Risk'',
         strategy_notes = ''Economic downturn - minimizing inventory investment''\<rparr>
      else if contains ''Competitor_Stockout'' scenario_name then
        \<lparr>reorder_point = base_reorder_point s * (15 / 10),
         reorder_quantity = min (base_reorder_quantity s * 2) (max_order_size s),
         urgency_level = ''Opportunity - Market Capture'',
         strategy_notes = ''Competitor stockout - capturing increased market share''\<rparr>
      else if contains ''Post_Holiday'' scenario_name then
        \<lparr>reorder_point = base_reorder_point s * (5 / 10),
         reorder_quantity = base_reorder_quantity s * (4 / 10),
         urgency_level = ''Clearance Mode'',
         strategy_notes = ''Post-holiday clearance - minimal restocking''\<rparr>
      else
        \<lparr>reorder_point = base_reorder_point s,
         reorder_quantity = base_reorder_quantity s,
         urgency_level = ''Normal'',
         strategy_notes = ''Standard operations''\<rparr>)"

text \<open>
  \<open>analyze_scenario_and_adapt(scenario_name, predicted_demand, current_date)\<close>: the
  cascade, then the memory update with the resolved urgency level.
\<close>

definition analyze_scenario_and_adapt ::
  "agent \<Rightarrow> string \<Rightarrow> real \<Rightarrow> date \<Rightarrow> adaptation \<times> agent" where
  "analyze_scenario_and_adapt s scenario_name pd current_date =
     (let a = adapt_parameters s scenario_name
      in (a, update_scenario_memory s scenario_name pd (urgency_level a)))"

subsection \<open>Demand fulfilment\<close>

text \<open>\<open>_process_demand(actual_demand)\<close> returns (fulfilled, stockout) and the agent.\<close>

definition process_demand :: "agent \<Rightarrow> real \<Rightarrow> (real \<times> real) \<times> agent" where
  "process_demand s ad =
     (if current_stock s \<ge> ad then
        ((ad, 0),
         s\<lparr>current_stock := current_stock s - ad,
           total_revenue := total_revenue s + ad * 50\<rparr>)
      else
        ((current_stock s, ad - current_stock s),
         s\<lparr>current_stock := 0,
           total_revenue := total_revenue s + current_stock s * 50\<rparr>))"

subsection \<open>Order sizing and recording\<close>

text \<open>
  The coverage chosen inside \<open>_calculate_smart_order_quantity\<close>: the source tests its
  \<open>scenario_name\<close> argument.
\<close>

definition weeks_coverage :: "string \<Rightarrow> real" where
  "weeks_coverage scenario_name =
     (if contains ''Critical'' scenario_name then 4
      else if contains ''Conservative'' scenario_name then 15 / 10
      else 25 / 10)"

text \<open>
  \<open>_calculate_smart_order_quantity(base_quantity, predicted_demand, scenario_name)\<close>.
  \<open>decisions_log[-7:]\<close> is the last seven entries (all of them when there are fewer);
  every logged decision carries \<open>actual_demand\<close>.
\<close>

definition calculate_smart_order_quantity ::
  "agent \<Rightarrow> real \<Rightarrow> real \<Rightarrow> string \<Rightarrow> int" where
  "calculate_smart_order_quantity s base_quantity pd scenario_name =
     (let q0 = base_quantity;
          q1 = (if length (decisions_log s) > 7 then
                  (let recent_demand =
                         map actual_demand
                           (drop (length (decisions_log s) - 7) (decisions_log s));
                       avg_weekly_demand =
                         (if recent_demand \<noteq> [] then mean recent_demand * 7 else pd * 7);
                       demand_based_quantity = avg_weekly_demand * weeks_coverage scenario_name
                   in max q0 demand_based_quantity)
                else q0);
          q2 = min q1 (max_order_size s)
      in py_int q2)"

text \<open>\<open>_record_order(date, quantity, scenario, urgency)\<close>.\<close>

definition record_order :: "agent \<Rightarrow> date \<Rightarrow> int \<Rightarrow> string \<Rightarrow> string \<Rightarrow> agent" where
  "record_order s d q sc u =
     (let new_order = \<lparr>o_date = d, quantity = q, o_scenario = sc, urgency = u,
                 cost = q * 30, lead_time_expected = lead_time_days s\<rparr>
      in s\<lparr>orders_placed := orders_placed s @ [new_order],
           total_costs := total_costs s + cost new_order\<rparr>)"

subsection \<open>One period\<close>

text \<open>
  The realised demand. The source draws \<open>np.random.normal(0, abs(predicted_demand) * 0.1)\<close>;
  the draw is an input of the model: \<open>z\<close> is the standard normal variate and the noise
  is \<open>z\<close> scaled by the standard deviation, so \<open>z = 0\<close> is a period without noise.
\<close>

definition simulate_demand :: "real \<Rightarrow> real \<Rightarrow> real" where
  "simulate_demand pd z = max 0 (pd + \<bar>pd\<bar> * (1 / 10) * z)"

text \<open>
  \<open>make_intelligent_decision(predicted_demand, current_date, scenario_name)\<close> returns
  the decision (also appended to the log) and the updated agent.
\<close>

definition make_intelligent_decision ::
  "agent \<Rightarrow> real \<Rightarrow> date \<Rightarrow> string \<Rightarrow> real \<Rightarrow> decision \<times> agent" where
  "make_intelligent_decision s predicted current_date scenario_name z =
     (let pd = max 0 predicted;
          (adaptation, s1) = analyze_scenario_and_adapt s scenario_name pd current_date;
          ad = simulate_demand pd z;
          ((fulfilled, stockout_amount), s2) = process_demand s1 ad;
          s3 = (if stockout_amount > 0 then
                  s2\<lparr>stockouts := stockouts s2 + 1,
                     customer_satisfaction_score :=
                       max 0 (customer_satisfaction_score s2 - 2)\<rparr>
                else s2);
          dec = \<lparr>date = current_date,
                 scenario = scenario_name,
                 predicted_demand = pd,
                 current_stock_before = current_stock s1,
                 d_urgency_level = urgency_level adaptation,
                 d_strategy_notes = strategy_notes adaptation,
                 adaptive_reorder_point = reorder_point adaptation,
                 adaptive_reorder_quantity = reorder_quantity adaptation,
                 action = (if stockout_amount > 0 then stockout else no_action),
                 order_quantity = 0,
                 reason = (if stockout_amount > 0 then StockoutReason stockout_amount
                           else NoReason),
                 current_stock_after = current_stock s3,
                 actual_demand = ad,
                 demand_fulfilled = fulfilled\<rparr>
      in if current_stock s3 \<le> reorder_point adaptation then
           (let oq = calculate_smart_order_quantity s3 (reorder_quantity adaptation) pd
                       scenario_name;
                s4 = s3\<lparr>current_stock := current_stock s3 + of_int oq\<rparr>;
                s5 = record_order s4 current_date oq scenario_name (urgency_level adaptation);
                dec' = dec\<lparr>action := intelligent_reorder,
                           order_quantity := oq,
                           reason := SmartReorder (strategy_notes adaptation),
                           current_stock_after := current_stock s5\<rparr>
            in (dec', s5\<lparr>decisions_log := decisions_log s5 @ [dec']\<rparr>))
         else (dec, s3\<lparr>decisions_log := decisions_log s3 @ [dec]\<rparr>))"

subsection \<open>Sequences of periods\<close>

text \<open>
  A period event: predicted demand, date, scenario label, and the period's noise
  variate. \<open>run\<close> submits the events in order, as the callers' loops do.
\<close>

record event =
  ev_demand :: real
  ev_date :: date
  ev_scenario :: string
  ev_noise :: real

definition step :: "agent \<Rightarrow> event \<Rightarrow> agent" where
  "step s e = snd (make_intelligent_decision s (ev_demand e) (ev_date e) (ev_scenario e)
                     (ev_noise e))"

fun run :: "agent \<Rightarrow> event list \<Rightarrow> agent" where
  "run s [] = s"
| "run s (e # es) = run (step s e) es"

text \<open>\<open>n\<close> noise-free periods of one scenario with one predicted demand, dated 1 to \<open>n\<close>.\<close>

definition steady :: "string \<Rightarrow> real \<Rightarrow> nat \<Rightarrow> event list" where
  "steady sc d n =
     map (\<lambda>k. \<lparr>ev_demand = d, ev_date = k, ev_scenario = sc, ev_noise = 0\<rparr>) [1..<Suc n]"

subsection \<open>Observations and example inputs used in the statements\<close>



text \<open>Every order placed so far is within the (non-negative) maximum order size.\<close>

definition orders_within_limit :: "agent \<Rightarrow> bool" where
  "orders_within_limit s \<longleftrightarrow>
     0 \<le> max_order_size s \<and>
     (\<forall>x \<in> set (orders_placed s). real_of_int (quantity x) \<le> max_order_size s)"

text \<open>A noise-free viral spike of 500 units.\<close>

definition viral_event :: event where
  "viral_event =
     \<lparr>ev_demand = 500, ev_date = 1, ev_scenario = ''Viral_Spike_Test'', ev_noise = 0\<rparr>"


section \<open>Properties\<close>

subsection \<open>Facts about one period\<close>

lemmas mid_defs = make_intelligent_decision_def analyze_scenario_and_adapt_def
  process_demand_def record_order_def Let_def

lemma mid_scenario_memory:
  "scenario_memory (snd (make_intelligent_decision s p d l z)) =
   scenario_memory
     (update_scenario_memory s l (max 0 p) (urgency_level (adapt_parameters s l)))"
  by (simp add: mid_defs update_scenario_memory_def)

lemma mid_max_order_size:
  "max_order_size (snd (make_intelligent_decision s p d l z)) = max_order_size s"
  by (simp add: mid_defs update_scenario_memory_def)

lemma mid_base_reorder_quantity:
  "base_reorder_quantity (snd (make_intelligent_decision s p d l z)) = base_reorder_quantity s"
  by (simp add: mid_defs update_scenario_memory_def)

lemma py_int_nonneg: "0 \<le> x \<Longrightarrow> 0 \<le> py_int x"
  by (simp add: py_int_def)

lemma py_int_le: "0 \<le> m \<Longrightarrow> x \<le> m \<Longrightarrow> real_of_int (py_int x) \<le> m"
  unfolding py_int_def
  by (smt (verit) ceiling_le_zero of_int_floor_le of_int_le_0_iff)

lemma adapt_quantity_nonneg:
  "0 \<le> base_reorder_quantity s \<Longrightarrow> 0 \<le> max_order_size s \<Longrightarrow>
   0 \<le> reorder_quantity (adapt_parameters s l)"
  by (simp add: adapt_parameters_def)

lemma order_quantity_nonneg:
  "0 \<le> b \<Longrightarrow> 0 \<le> max_order_size s \<Longrightarrow> 0 \<le> calculate_smart_order_quantity s b p l"
  by (simp add: calculate_smart_order_quantity_def Let_def py_int_nonneg)

lemma order_quantity_le:
  "0 \<le> max_order_size s \<Longrightarrow>
   real_of_int (calculate_smart_order_quantity s b p l) \<le> max_order_size s"
  by (simp add: calculate_smart_order_quantity_def Let_def py_int_le)

text \<open>
  The sizing heuristic is guarded by \<open>len(self.decisions_log) > 7\<close>: it is skipped with
  seven logged periods and applied from eight on.
\<close>

lemma heuristic_skipped_at_seven:
  "length (decisions_log s) = 7 \<Longrightarrow>
   calculate_smart_order_quantity s b p l = py_int (min b (max_order_size s))"
  by (simp add: calculate_smart_order_quantity_def)

lemma heuristic_applied_above_seven:
  "7 < length (decisions_log s) \<Longrightarrow>
   calculate_smart_order_quantity s b p l =
     py_int (min (max b (mean (map actual_demand
                                (drop (length (decisions_log s) - 7) (decisions_log s)))
                          * 7 * weeks_coverage l))
                 (max_order_size s))"
  by (simp add: calculate_smart_order_quantity_def Let_def)

lemma mid_stock_nonneg:
  assumes "0 \<le> current_stock s" "0 \<le> base_reorder_quantity s" "0 \<le> max_order_size s"
  shows "0 \<le> current_stock (snd (make_intelligent_decision s p d l z))"
proof -
  have q: "0 \<le> reorder_quantity (adapt_parameters s l)"
    using assms(2,3) by (rule adapt_quantity_nonneg)
  show ?thesis
    using assms q
    by (simp add: mid_defs update_scenario_memory_def order_quantity_nonneg)
qed

lemma mid_orders_placed:
  assumes "0 \<le> max_order_size s"
    and "x \<in> set (orders_placed (snd (make_intelligent_decision s p d l z)))"
  shows "x \<in> set (orders_placed s) \<or> real_of_int (quantity x) \<le> max_order_size s"
proof -
  let ?a = "adapt_parameters s l"
  have "\<And>s'. max_order_size s' = max_order_size s \<Longrightarrow>
      real_of_int (calculate_smart_order_quantity s' (reorder_quantity ?a) (max 0 p) l)
        \<le> max_order_size s"
    using assms(1) order_quantity_le by metis
  then show ?thesis using assms(2)
    by (auto simp: mid_defs update_scenario_memory_def split: if_splits)
qed

subsection \<open>Facts about sequences of periods\<close>

lemma step_stock_nonneg:
  "0 \<le> current_stock s \<Longrightarrow> 0 \<le> base_reorder_quantity s \<Longrightarrow> 0 \<le> max_order_size s \<Longrightarrow>
   0 \<le> current_stock (step s e)"
  by (simp add: step_def mid_stock_nonneg)

lemma step_config:
  "base_reorder_quantity (step s e) = base_reorder_quantity s"
  "max_order_size (step s e) = max_order_size s"
  by (simp_all add: step_def mid_base_reorder_quantity mid_max_order_size)

lemma run_stock_nonneg:
  "0 \<le> current_stock s \<Longrightarrow> 0 \<le> base_reorder_quantity s \<Longrightarrow> 0 \<le> max_order_size s \<Longrightarrow>
   0 \<le> current_stock (run s evs)"
  by (induction evs arbitrary: s) (simp_all add: step_stock_nonneg step_config)

lemma orders_within_limit_step:
  assumes "orders_within_limit s"
  shows "orders_within_limit (step s e)"
proof -
  from assms have m: "0 \<le> max_order_size s"
    and old: "\<And>x. x \<in> set (orders_placed s) \<Longrightarrow> real_of_int (quantity x) \<le> max_order_size s"
    by (simp_all add: orders_within_limit_def)
  have "real_of_int (quantity x) \<le> max_order_size s"
    if "x \<in> set (orders_placed (step s e))" for x
    using mid_orders_placed [OF m that [unfolded step_def]] old by blast
  then show ?thesis
    using m by (simp add: orders_within_limit_def step_def mid_max_order_size)
qed

lemma orders_within_limit_run: "orders_within_limit s \<Longrightarrow> orders_within_limit (run s evs)"
  by (induction evs arbitrary: s) (simp_all add: orders_within_limit_step)







text \<open>
  What \<open>reset_simulation\<close> without argument leaves behind: a fresh agent with the same
  base parameters, except that the scenario memory and the configuration are kept.
\<close>

lemma reset_simulation_frame:
  "reset_simulation s None =
     (agent_init 2000 (base_reorder_point s) (base_reorder_quantity s))
       \<lparr>scenario_memory := scenario_memory s,
        safety_stock_multiplier := safety_stock_multiplier s,
        max_order_size := max_order_size s,
        lead_time_days := lead_time_days s\<rparr>"
  by (simp add: reset_simulation_def agent_init_def)

section \<open>The claims\<close>

text \<open>
  Claim C10. Resetting with an explicit initial stock of 0 leaves the stock at the
  default 2000, exactly as resetting without argument does, while every positive
  initial stock \<open>v\<close> becomes the current stock.
\<close>

theorem reset_zero_stock_is_default:
  "current_stock (reset_simulation s (Some 0)) = 2000 \<and>
   current_stock (reset_simulation s None) = 2000 \<and>
   (0 < v \<longrightarrow> current_stock (reset_simulation s (Some v)) = v)"
  by (simp add: reset_simulation_def)

theorem reset_zero_stock_is_default_witness:
  "(0::real) < 1500 \<and> current_stock (reset_simulation agent_default (Some 1500)) = 1500 \<and>
   current_stock (reset_simulation agent_default (Some 0)) = 2000"
  using reset_zero_stock_is_default [of agent_default 1500] by simp

text \<open>
  Claim C9. When fulfilment of a period leaves demand unmet and the stock after
  fulfilment is at or below the adapted reorder point, the decision returned and logged
  for the period has action \<open>intelligent_reorder\<close>, while the stockout count has grown
  by one and the satisfaction score has lost two points (not going below zero).
\<close>

theorem stockout_overridden_by_reorder:
  "let pd = max 0 p;
       (a, s1) = analyze_scenario_and_adapt s l pd d;
       ((fulfilled, stockout_amount), s2) = process_demand s1 (simulate_demand pd z);
       (dec, s') = make_intelligent_decision s p d l z
   in 0 < stockout_amount \<longrightarrow> current_stock s2 \<le> reorder_point a \<longrightarrow>
        action dec = intelligent_reorder \<and>
        last (decisions_log s') = dec \<and>
        stockouts s' = stockouts s + 1 \<and>
        customer_satisfaction_score s' = max 0 (customer_satisfaction_score s - 2)"
  by (simp add: mid_defs update_scenario_memory_def split: prod.splits)

theorem stockout_overridden_by_reorder_witness:
  "let s = agent_init 300 300 800; p = 500; d = 1; l = ''Viral_Spike_Test''; z = 0;
       pd = max 0 p;
       (a, s1) = analyze_scenario_and_adapt s l pd d;
       ((fulfilled, stockout_amount), s2) = process_demand s1 (simulate_demand pd z);
       (dec, s') = make_intelligent_decision s p d l z
   in stockout_amount = 200 \<and> current_stock s2 = 0 \<and> reorder_point a = 750 \<and>
        action dec = intelligent_reorder \<and> order_quantity dec = 2400 \<and>
        last (decisions_log s') = dec \<and>
        stockouts s' = 1 \<and>
        customer_satisfaction_score s' = 98"
  using stockout_overridden_by_reorder [of 500 "agent_init 300 300 800" "''Viral_Spike_Test''" 1 0]
  by code_simp

text \<open>
  Claim C7. Every order placed during any sequence of periods, starting from a newly
  constructed agent, has a quantity of at most \<open>max_order_size\<close>.
\<close>

theorem order_quantity_within_max_order_size:
  "\<forall>x \<in> set (orders_placed (run (agent_init stock rp rq) evs)).
     real_of_int (quantity x) \<le> max_order_size (run (agent_init stock rp rq) evs)"
proof -
  have "orders_within_limit (agent_init stock rp rq)"
    by (simp add: orders_within_limit_def agent_init_def)
  then have "orders_within_limit (run (agent_init stock rp rq) evs)"
    by (rule orders_within_limit_run)
  then show ?thesis by (simp add: orders_within_limit_def)
qed

theorem order_quantity_within_max_order_size_witness:
  "map quantity (orders_placed (run (agent_init 300 300 800) [viral_event])) = [2400] \<and>
   max_order_size (run (agent_init 300 300 800) [viral_event]) = 5000 \<and>
   real_of_int (quantity (hd (orders_placed (run (agent_init 300 300 800) [viral_event]))))
     \<le> max_order_size (run (agent_init 300 300 800) [viral_event])"
proof -
  let ?s = "run (agent_init 300 300 800) [viral_event]"
  have q: "map quantity (orders_placed ?s) = [2400]"
    by code_simp
  have m: "max_order_size ?s = 5000"
    by code_simp
  from q have "orders_placed ?s \<noteq> []" by auto
  then have "hd (orders_placed ?s) \<in> set (orders_placed ?s)" by simp
  with order_quantity_within_max_order_size [of 300 300 800 "[viral_event]"]
  have "real_of_int (quantity (hd (orders_placed ?s))) \<le> max_order_size ?s"
    by blast
  with q m show ?thesis by blast
qed



text \<open>
  Claim C6, as amended. From every state with non-negative stock, non-negative base
  reorder quantity and non-negative maximum order size, the stock is non-negative after
  every period of every sequence of events.
\<close>

theorem stock_never_negative:
  assumes "0 \<le> current_stock s" "0 \<le> base_reorder_quantity s" "0 \<le> max_order_size s"
  shows "0 \<le> current_stock (run s (take n evs))"
  using assms by (rule run_stock_nonneg)

theorem stock_never_negative_witness:
  "0 \<le> current_stock agent_default \<and> 0 \<le> base_reorder_quantity agent_default \<and>
   0 \<le> max_order_size agent_default \<and>
   0 \<le> current_stock (run agent_default (take 18 (steady ''Normal_Operations'' 100 20)))"
proof -
  have h: "0 \<le> current_stock agent_default" "0 \<le> base_reorder_quantity agent_default"
    "0 \<le> max_order_size agent_default"
    by (simp_all add: agent_default_def agent_init_def)
  from stock_never_negative [OF h] h show ?thesis by blast
qed

text \<open>
  Claim C6 as stated fails: an agent constructed with stock 0 and a negative base
  reorder quantity places an order of \<open>- 800\<close> units in its first period.
\<close>

theorem stock_negative_counterexample:
  "0 \<le> current_stock (agent_init 0 300 (- 800)) \<and>
   current_stock (run (agent_init 0 300 (- 800)) (steady ''Normal_Operations'' 100 1)) = - 800"
  by code_simp

text \<open>
  Claim C4 as stated fails: a period submitted with predicted demand \<open>- 5\<close> is not
  rejected. It appends a decision (with predicted demand 0) to the empty log of a new
  agent and creates the label's entry in the scenario memory.
\<close>

theorem negative_demand_mutates_counterexample:
  "decisions_log agent_default = [] \<and>
   map predicted_demand
     (decisions_log (snd (make_intelligent_decision agent_default (- 5) 1 ''Normal_Operations'' 0)))
     = [0] \<and>
   scenario_memory agent_default ''Normal_Operations'' = None \<and>
   scenario_memory (snd (make_intelligent_decision agent_default (- 5) 1 ''Normal_Operations'' 0))
     ''Normal_Operations'' \<noteq> None"
  by code_simp

text \<open>
  Claim C4, as amended. A period submitted with a negative predicted demand is accepted
  and processed exactly as the same period with predicted demand 0 (whose noise has
  standard deviation 0): the decision records predicted and actual demand 0, it is
  appended to the decision log, and the label has an entry in the scenario memory
  afterwards.
\<close>

theorem negative_demand_clamped_to_zero:
  "p < 0 \<Longrightarrow>
   make_intelligent_decision s p d l z = make_intelligent_decision s 0 d l 0 \<and>
   predicted_demand (fst (make_intelligent_decision s p d l z)) = 0 \<and>
   actual_demand (fst (make_intelligent_decision s p d l z)) = 0 \<and>
   decisions_log (snd (make_intelligent_decision s p d l z)) =
     decisions_log s @ [fst (make_intelligent_decision s p d l z)] \<and>
   scenario_memory (snd (make_intelligent_decision s p d l z)) l \<noteq> None"
  by (simp add: mid_defs update_scenario_memory_def simulate_demand_def max_def
        split: prod.splits)

theorem negative_demand_clamped_to_zero_witness:
  "(- 5 :: real) < 0 \<and>
   make_intelligent_decision agent_default (- 5) 1 ''Normal_Operations'' 1 =
     make_intelligent_decision agent_default 0 1 ''Normal_Operations'' 0 \<and>
   length (decisions_log
     (snd (make_intelligent_decision agent_default (- 5) 1 ''Normal_Operations'' 1))) = 1"
proof -
  have h: "(- 5 :: real) < 0" by simp
  note w = negative_demand_clamped_to_zero [OF h, of agent_default 1 "''Normal_Operations''" 1]
  let ?r = "make_intelligent_decision agent_default (- 5) 1 ''Normal_Operations'' 1"
  from w have "decisions_log (snd ?r) = decisions_log agent_default @ [fst ?r]"
    by blast
  moreover have "decisions_log agent_default = []"
    by (simp add: agent_default_def agent_init_def)
  ultimately have "length (decisions_log (snd ?r)) = 1"
    by simp
  with w h show ?thesis by blast
qed

text \<open>
  Claim C5, evaluated on the code: after one period under the label
  \<open>Normal_Operations\<close> (whatever its noise) and a reset without argument, the scenario
  memory still holds the label's entry, whereas a newly constructed agent has none.
\<close>

theorem reset_keeps_scenario_memory:
  "scenario_memory agent_default ''Normal_Operations'' = None \<and>
   scenario_memory
     (reset_simulation
        (snd (make_intelligent_decision agent_default 100 1 ''Normal_Operations'' z)) None)
     ''Normal_Operations''
   = Some \<lparr>encounters = 1, avg_demand = 100, max_demand = 100,
           successful_strategies = [''Normal'']\<rparr>"
  by (simp add: reset_simulation_def mid_scenario_memory update_scenario_memory_def
        adapt_parameters_def agent_default_def agent_init_def)

text \<open>
  Claim C1 as stated fails: with stock 2000, reorder point 300 and eighteen noise-free
  periods of demand 100, the decision of day 17 already has action
  \<open>intelligent_reorder\<close>, and the decision of day 18 has action \<open>no_action\<close>.
\<close>

theorem first_reorder_day_counterexample:
  "action (decisions_log (run (agent_init 2000 300 800) (steady ''Normal_Operations'' 100 18)) ! 16)
     = intelligent_reorder \<and>
   date (decisions_log (run (agent_init 2000 300 800) (steady ''Normal_Operations'' 100 18)) ! 16)
     = 17 \<and>
   action (decisions_log (run (agent_init 2000 300 800) (steady ''Normal_Operations'' 100 18)) ! 17)
     = no_action"
  by code_simp

text \<open>
  Claim C1, as amended. In that run no period records a stockout, the stock after
  fulfilment falls by 100 a day and reaches the reorder point 300 on day 17, and day 17
  is the first (and only) period whose decision has action \<open>intelligent_reorder\<close>.
\<close>

theorem first_reorder_on_day_17:
  "map action (decisions_log (run (agent_init 2000 300 800) (steady ''Normal_Operations'' 100 18)))
     = replicate 16 no_action @ [intelligent_reorder, no_action] \<and>
   map date (decisions_log (run (agent_init 2000 300 800) (steady ''Normal_Operations'' 100 18)))
     = [1..<19] \<and>
   map (\<lambda>x. current_stock_before x - demand_fulfilled x)
       (decisions_log (run (agent_init 2000 300 800) (steady ''Normal_Operations'' 100 18)))
     = [1900, 1800, 1700, 1600, 1500, 1400, 1300, 1200, 1100, 1000, 900, 800, 700, 600, 500,
        400, 300, 1950] \<and>
   stockouts (run (agent_init 2000 300 800) (steady ''Normal_Operations'' 100 18)) = 0"
  by code_simp

text \<open>
  Claim C2, evaluated on the code: with stock 1100, the eighth noise-free period of
  demand 100 triggers a reorder when seven periods with actual demand 100 are logged.
  The claim's candidate quantity is 1750; the order placed is the base quantity 800.
\<close>

theorem seven_prior_periods_skip_heuristic:
  "map actual_demand
     (decisions_log (run (agent_init 1100 300 800) (steady ''Normal_Operations'' 100 7)))
     = replicate 7 100 \<and>
   max 800 (mean (replicate 7 100) * 7 * weeks_coverage ''Normal_Operations'') = 1750 \<and>
   map order_quantity
     (decisions_log (run (agent_init 1100 300 800) (steady ''Normal_Operations'' 100 8)))
     = [0, 0, 0, 0, 0, 0, 0, 800]"
  by code_simp

text \<open>
  Claim C3, evaluated on the code: the label \<open>Viral_Spike_Test\<close> resolves to an
  urgency level containing \<open>Critical\<close>, yet the coverage chosen for it is 2.5, and after
  eight logged periods of demand 100 the order is 2400 (with coverage 4 it would be
  2800).
\<close>

theorem coverage_ignores_urgency_level:
  "contains ''Critical'' (urgency_level (adapt_parameters agent_default ''Viral_Spike_Test'')) \<and>
   weeks_coverage ''Viral_Spike_Test'' = 25 / 10 \<and>
   map order_quantity
     (decisions_log (run agent_default
        (steady ''Normal_Operations'' 100 8 @ [viral_event\<lparr>ev_date := 9\<rparr>])))
     = [0, 0, 0, 0, 0, 0, 0, 0, 2400]"
  by code_simp

end
